theory Spec2Isabelle
  imports Complex_Main
begin

section \<open>The dashboard: \<^verbatim>\<open>src/frontend/src/App.js\<close>\<close>

text \<open>
  The React component \<^verbatim>\<open>App\<close> keeps ten pieces of state (\<^verbatim>\<open>useState\<close>), talks to
  the backend through \<^verbatim>\<open>axios\<close> and renders from the state. Each handler is modelled
  as a function from the state before to the state after and the list of effects it
  performs, in the order it performs them. What the server answers is an input of the
  handler: \<open>Inl\<close> is a rejected \<^verbatim>\<open>axios\<close> promise (the \<^verbatim>\<open>catch\<close> branch), \<open>Inr\<close> is
  \<^verbatim>\<open>response.data\<close>.
\<close>

subsection \<open>Data\<close>

text \<open>The four counters of a statistics object, generic in how a counter is held.\<close>

record 'n stats =
  total_processed :: 'n
  successful_submissions :: 'n
  failed_submissions :: 'n
  duplicates_skipped :: 'n

text \<open>
  A number as JavaScript holds one here: \<^verbatim>\<open>parseInt\<close> of the number input gives an
  integer or \<^verbatim>\<open>NaN\<close>.
\<close>

datatype js_number = Num int | NaN

text \<open>
  A value read from a response or put into a request: absent (\<^verbatim>\<open>undefined\<close>), \<^verbatim>\<open>null\<close>, a
  boolean, a number or a string. Arrays and objects in these places are outside the
  model.
\<close>

datatype js_value = Undefined | Null | Boolean bool | Number js_number | Str string

text \<open>
  Truthiness, as \<^verbatim>\<open>if\<close>, \<^verbatim>\<open>!\<close>, \<^verbatim>\<open>&&\<close> and \<^verbatim>\<open>||\<close> read a value: \<^verbatim>\<open>undefined\<close>, \<^verbatim>\<open>null\<close>,
  \<^verbatim>\<open>false\<close>, \<^verbatim>\<open>0\<close>, \<^verbatim>\<open>NaN\<close> and the empty string are falsy.
\<close>

fun truthy :: "js_value \<Rightarrow> bool" where
  "truthy Undefined = False"
| "truthy Null = False"
| "truthy (Boolean b) = b"
| "truthy (Number (Num n)) = (n \<noteq> 0)"
| "truthy (Number NaN) = False"
| "truthy (Str t) = (t \<noteq> [])"

text \<open>
  The snapshot of \<^verbatim>\<open>GET /api/status\<close>. \<^verbatim>\<open>is_running\<close> and \<^verbatim>\<open>current_job\<close> are whatever
  the server sent; \<^verbatim>\<open>stats\<close> may be absent (\<open>None\<close>), and so may each counter of
  \<^verbatim>\<open>stats\<close>. The initial value \<^verbatim>\<open>{}\<close> has every field absent.
\<close>

record pipeline_status =
  is_running :: js_value
  current_job :: js_value
  stats :: "int option stats option"

record service_status =
  status :: string
  error :: "string option"
  categories_count :: "int option"
  tags_loaded :: "int option"
  features_loaded :: "int option"

record scraping_result =
  tool_name_on_directory :: string
  external_website_url :: string
  scraped_date :: string

record spider_results =
  results_count :: int
  results :: "scraping_result list"

record taxonomy_item =
  item_type :: string
  item_name :: string
  item_timestamp :: string

record app_state =
  spiders :: "string list"
  pipelineStatus :: pipeline_status
  serviceStatus :: "(string \<times> service_status) list"
  scrapingResults :: "string \<rightharpoonup> spider_results"
  logs :: "string list"
  missingTaxonomy :: "taxonomy_item list"
  loading :: bool
  selectedSpider :: string
  maxItems :: js_number
  activeTab :: string

definition initial_state :: app_state where
  "initial_state =
     \<lparr>spiders = [],
      pipelineStatus = \<lparr>is_running = Undefined, current_job = Undefined, stats = None\<rparr>,
      serviceStatus = [],
      scrapingResults = Map.empty,
      logs = [],
      missingTaxonomy = [],
      loading = False,
      selectedSpider = [],
      maxItems = Num 50,
      activeTab = ''dashboard''\<rparr>"

text \<open>The message of a rejected request.\<close>

type_synonym axios_error = string

type_synonym 'a response = "axios_error + 'a"

datatype effect =
  HttpGet string
| HttpPost string "(string \<times> js_value) list"
| Alert string
| ConsoleError string axios_error

text \<open>\<^verbatim>\<open>process.env.REACT_APP_BACKEND_URL || 'http://localhost:8001'\<close>\<close>

definition API_BASE_URL :: "string option \<Rightarrow> string" where
  "API_BASE_URL env =
     (case env of
        None \<Rightarrow> ''http://localhost:8001''
      | Some u \<Rightarrow> if u = [] then ''http://localhost:8001'' else u)"

subsection \<open>The fetch operations\<close>

definition fetchSpiders :: "string \<Rightarrow> string list response \<Rightarrow> app_state \<Rightarrow> app_state \<times> effect list" where
  "fetchSpiders base reply s =
     (case reply of
        Inr data \<Rightarrow>
          (let s1 = s\<lparr>spiders := data\<rparr>
           in (case data of
                 [] \<Rightarrow> s1
               | first # _ \<Rightarrow> s1\<lparr>selectedSpider := first\<rparr>),
           [HttpGet (base @ ''/api/spiders'')])
      | Inl err \<Rightarrow>
          (s, [HttpGet (base @ ''/api/spiders''), ConsoleError ''Failed to fetch spiders:'' err]))"

definition fetchPipelineStatus :: "string \<Rightarrow> pipeline_status response \<Rightarrow> app_state \<Rightarrow> app_state \<times> effect list" where
  "fetchPipelineStatus base reply s =
     (case reply of
        Inr data \<Rightarrow> (s\<lparr>pipelineStatus := data\<rparr>, [HttpGet (base @ ''/api/status'')])
      | Inl err \<Rightarrow>
          (s, [HttpGet (base @ ''/api/status''), ConsoleError ''Failed to fetch pipeline status:'' err]))"

definition fetchServiceStatus :: "string \<Rightarrow> (string \<times> service_status) list response \<Rightarrow> app_state \<Rightarrow> app_state \<times> effect list" where
  "fetchServiceStatus base reply s =
     (case reply of
        Inr data \<Rightarrow> (s\<lparr>serviceStatus := data\<rparr>, [HttpGet (base @ ''/api/test-services'')])
      | Inl err \<Rightarrow>
          (s, [HttpGet (base @ ''/api/test-services''), ConsoleError ''Failed to fetch service status:'' err]))"

definition fetchLogs :: "string \<Rightarrow> string list response \<Rightarrow> app_state \<Rightarrow> app_state \<times> effect list" where
  "fetchLogs base reply s =
     (case reply of
        Inr data \<Rightarrow> (s\<lparr>logs := data\<rparr>, [HttpGet (base @ ''/api/logs?lines=100'')])
      | Inl err \<Rightarrow>
          (s, [HttpGet (base @ ''/api/logs?lines=100''), ConsoleError ''Failed to fetch logs:'' err]))"

definition fetchMissingTaxonomy :: "string \<Rightarrow> taxonomy_item list response \<Rightarrow> app_state \<Rightarrow> app_state \<times> effect list" where
  "fetchMissingTaxonomy base reply s =
     (case reply of
        Inr data \<Rightarrow> (s\<lparr>missingTaxonomy := data\<rparr>, [HttpGet (base @ ''/api/missing-taxonomy'')])
      | Inl err \<Rightarrow>
          (s, [HttpGet (base @ ''/api/missing-taxonomy''), ConsoleError ''Failed to fetch missing taxonomy:'' err]))"

text \<open>
  \<^verbatim>\<open>setScrapingResults(prev => ({...prev, [spiderName]: response.data}))\<close>: the updater
  runs on the state current when it is applied.
\<close>

definition fetchScrapingResults :: "string \<Rightarrow> string \<Rightarrow> spider_results response \<Rightarrow> app_state \<Rightarrow> app_state \<times> effect list" where
  "fetchScrapingResults base spiderName reply s =
     (case reply of
        Inr data \<Rightarrow>
          (s\<lparr>scrapingResults := (scrapingResults s)(spiderName \<mapsto> data)\<rparr>,
           [HttpGet (base @ ''/api/scraping-results/'' @ spiderName)])
      | Inl err \<Rightarrow>
          (s, [HttpGet (base @ ''/api/scraping-results/'' @ spiderName),
               ConsoleError ''Failed to fetch scraping results:'' err]))"

subsection \<open>Starting a job\<close>

text \<open>The body of \<^verbatim>\<open>POST /api/start-scraping\<close>'s answer as the handler reads it.\<close>

record start_response =
  success :: js_value
  job_id :: js_value
  message :: js_value

text \<open>The decimal digits of a natural number.\<close>

function decimal :: "nat \<Rightarrow> string" where
  "decimal n = (if n < 10 then [char_of (48 + n)] else decimal (n div 10) @ [char_of (48 + n mod 10)])"
  by pat_completeness auto
termination
  by (relation "measure id") auto

text \<open>
  A value inside a template literal, \<^verbatim>\<open>`${v}`\<close>: an absent field prints as
  \<^verbatim>\<open>undefined\<close>, \<^verbatim>\<open>null\<close> as \<^verbatim>\<open>null\<close>, a boolean as \<^verbatim>\<open>true\<close> or \<^verbatim>\<open>false\<close>, an integer
  in decimal (as JavaScript prints every integer below \<open>10\<^sup>2\<^sup>1\<close> in size), a string
  as it is.
\<close>

fun template :: "js_value \<Rightarrow> string" where
  "template Undefined = ''undefined''"
| "template Null = ''null''"
| "template (Boolean b) = (if b then ''true'' else ''false'')"
| "template (Number (Num n)) = (if n < 0 then ''-'' @ decimal (nat (- n)) else decimal (nat n))"
| "template (Number NaN) = ''NaN''"
| "template (Str t) = t"

text \<open>
  \<^verbatim>\<open>startScrapingJob\<close>. The first reply is the answer to the POST; the second is the
  answer to the status request that a successful start fires (and does not await).
\<close>

definition startScrapingJob ::
  "string \<Rightarrow> start_response response \<Rightarrow> pipeline_status response \<Rightarrow> app_state \<Rightarrow> app_state \<times> effect list" where
  "startScrapingJob base reply status_reply s =
     (if selectedSpider s = [] then (s, [Alert ''Please select a spider''])
      else
        let s1 = s\<lparr>loading := True\<rparr>;
            post = HttpPost (base @ ''/api/start-scraping'')
                     [(''spider_name'', Str (selectedSpider s)), (''max_items'', Number (maxItems s))]
        in (case reply of
              Inr data \<Rightarrow>
                if truthy (success data) then
                  (let (s2, fetched) = fetchPipelineStatus base status_reply (s1\<lparr>loading := False\<rparr>)
                   in (s2, [post, Alert (''Scraping job started: '' @ template (job_id data))] @ fetched))
                else
                  (s1\<lparr>loading := False\<rparr>,
                   [post, Alert (''Failed to start scraping: '' @ template (message data))])
            | Inl err \<Rightarrow>
                (s1\<lparr>loading := False\<rparr>, [post, Alert (''Error starting scraping job: '' @ err)])))"

text \<open>The \<^verbatim>\<open>disabled\<close> attribute of the submit button: \<^verbatim>\<open>loading || pipelineStatus.is_running\<close>.\<close>

definition submit_disabled :: "app_state \<Rightarrow> bool" where
  "submit_disabled s = (loading s \<or> truthy (is_running (pipelineStatus s)))"

definition requests :: "effect list \<Rightarrow> effect list" where
  "requests effs = filter (\<lambda>e. case e of HttpGet _ \<Rightarrow> True | HttpPost _ _ \<Rightarrow> True | _ \<Rightarrow> False) effs"

text \<open>What a handler does once the reply is there: its effects other than requests.\<close>

definition on_reply :: "effect list \<Rightarrow> effect list" where
  "on_reply effs = filter (\<lambda>e. case e of HttpGet _ \<Rightarrow> False | HttpPost _ _ \<Rightarrow> False | _ \<Rightarrow> True) effs"

subsection \<open>The effect hook and its timer\<close>

text \<open>
  The browser's interval timers on a logical clock of milliseconds:
  \<^verbatim>\<open>setInterval(f, d)\<close> registers \<open>f\<close> to run every \<open>d\<close> ms from the time of the call
  until \<^verbatim>\<open>clearInterval\<close> removes it. The only callback the component ever registers is
  the arrow function of line 26, which calls \<^verbatim>\<open>fetchPipelineStatus\<close>.
\<close>

datatype timer_callback = PollPipelineStatus

record interval_timer =
  handle :: nat
  delay :: nat
  since :: nat
  callback :: timer_callback

record browser =
  now :: nat
  timers :: "interval_timer list"
  next_handle :: nat

definition fresh_browser :: "nat \<Rightarrow> browser" where
  "fresh_browser t = \<lparr>now = t, timers = [], next_handle = 1\<rparr>"

definition setInterval :: "timer_callback \<Rightarrow> nat \<Rightarrow> browser \<Rightarrow> nat \<times> browser" where
  "setInterval f d b =
     (next_handle b,
      b\<lparr>timers := timers b @ [\<lparr>handle = next_handle b, delay = d, since = now b, callback = f\<rparr>],
        next_handle := Suc (next_handle b)\<rparr>)"

definition clearInterval :: "nat \<Rightarrow> browser \<Rightarrow> browser" where
  "clearInterval h b = b\<lparr>timers := filter (\<lambda>t. handle t \<noteq> h) (timers b)\<rparr>"

text \<open>
  The effect of lines 20-31, run once on mount (its dependency list is empty): three
  fetches, none awaited, then the interval. The three requests go out first; what each
  fetch does on its reply comes after, the replies taken in the order of the requests.
  It returns the state after the three replies have been applied, the effects, the
  interval's handle (kept by the cleanup closure) and the browser.
\<close>

definition useEffect_mount ::
  "string \<Rightarrow> string list response \<Rightarrow> pipeline_status response \<Rightarrow> (string \<times> service_status) list response
   \<Rightarrow> app_state \<Rightarrow> browser \<Rightarrow> app_state \<times> effect list \<times> nat \<times> browser" where
  "useEffect_mount base spiders_reply status_reply services_reply s b =
     (let (s1, e1) = fetchSpiders base spiders_reply s;
          (s2, e2) = fetchPipelineStatus base status_reply s1;
          (s3, e3) = fetchServiceStatus base services_reply s2;
          (interval, b') = setInterval PollPipelineStatus 3000 b
      in (s3, requests e1 @ requests e2 @ requests e3 @ on_reply e1 @ on_reply e2 @ on_reply e3,
          interval, b'))"

text \<open>The cleanup the effect returns: \<^verbatim>\<open>() => clearInterval(interval)\<close>, run on unmount.\<close>

definition useEffect_cleanup :: "nat \<Rightarrow> browser \<Rightarrow> browser" where
  "useEffect_cleanup interval b = clearInterval interval b"

definition run_callback ::
  "string \<Rightarrow> timer_callback \<Rightarrow> pipeline_status response \<Rightarrow> app_state \<Rightarrow> app_state \<times> effect list" where
  "run_callback base f reply s = (case f of PollPipelineStatus \<Rightarrow> fetchPipelineStatus base reply s)"

definition due :: "nat \<Rightarrow> interval_timer \<Rightarrow> bool" where
  "due t tm = (since tm < t \<and> 0 < delay tm \<and> (t - since tm) mod delay tm = 0)"

text \<open>What the timers do at time \<open>t\<close>: every timer that is due runs its callback.\<close>

fun fire_all ::
  "string \<Rightarrow> pipeline_status response \<Rightarrow> interval_timer list \<Rightarrow> app_state \<Rightarrow> app_state \<times> effect list" where
  "fire_all base reply [] s = (s, [])"
| "fire_all base reply (tm # tms) s =
     (let (s1, e1) = run_callback base (callback tm) reply s;
          (s2, e2) = fire_all base reply tms s1
      in (s2, e1 @ e2))"

definition fire :: "string \<Rightarrow> pipeline_status response \<Rightarrow> nat \<Rightarrow> browser \<Rightarrow> app_state \<Rightarrow> app_state \<times> effect list" where
  "fire base reply t b s = fire_all base reply (filter (due t) (timers b)) s"

subsection \<open>The job-status view\<close>

text \<open>
  What is rendered, as a tree: elements by tag, literal text, and numbers put into the
  page by a \<^verbatim>\<open>{...}\<close> expression. Class names and other attributes are left out. The
  snapshot is taken with whatever further fields the server sends (the record extension
  \<open>'a\<close>).
\<close>

datatype view = Elem string "view list" | Text string | NumberText int

fun numbers :: "view \<Rightarrow> int list" where
  "numbers (Elem tag children) = concat (map numbers children)"
| "numbers (Text t) = []"
| "numbers (NumberText n) = [n]"

fun texts :: "view \<Rightarrow> string list" where
  "texts (Elem tag children) = concat (map texts children)"
| "texts (Text t) = [t]"
| "texts (NumberText n) = []"

text \<open>
  A value as a child, \<^verbatim>\<open>{v}\<close>: React renders nothing for \<^verbatim>\<open>undefined\<close>, \<^verbatim>\<open>null\<close>, a boolean
  and the empty string, and prints a number or a string.
\<close>

fun render_value :: "js_value \<Rightarrow> view list" where
  "render_value Undefined = []"
| "render_value Null = []"
| "render_value (Boolean b) = []"
| "render_value (Number (Num n)) = [NumberText n]"
| "render_value (Number NaN) = [Text ''NaN'']"
| "render_value (Str t) = (if t = [] then [] else [Text t])"

text \<open>
  \<^verbatim>\<open>{v && (...)}\<close>: the element when \<open>v\<close> is truthy, and else \<open>v\<close> itself as a child, so a
  falsy number is printed.
\<close>

definition guarded :: "js_value \<Rightarrow> view list \<Rightarrow> view list" where
  "guarded v element = (if truthy v then element else render_value v)"

text \<open>\<^verbatim>\<open>pipelineStatus.stats?.field || 0\<close>\<close>

definition shown :: "(int option stats \<Rightarrow> int option) \<Rightarrow> 'a pipeline_status_scheme \<Rightarrow> int" where
  "shown field p =
     (case stats p of
        None \<Rightarrow> 0
      | Some st \<Rightarrow> (case field st of None \<Rightarrow> 0 | Some n \<Rightarrow> if n = 0 then 0 else n))"

text \<open>Lines 164-169: the badge in the header, on every tab.\<close>

definition running_badge :: "'a pipeline_status_scheme \<Rightarrow> view list" where
  "running_badge p =
     guarded (is_running p) [Elem ''div'' [Elem ''div'' [], Elem ''span'' [Text ''Running'']]]"

definition counter_cell :: "int \<Rightarrow> string \<Rightarrow> view" where
  "counter_cell n label = Elem ''div'' [Elem ''div'' [NumberText n], Elem ''div'' [Text label]]"

text \<open>Lines 211-242: the card of the dashboard tab.\<close>

definition current_job_card :: "'a pipeline_status_scheme \<Rightarrow> view list" where
  "current_job_card p =
     guarded (current_job p)
       [Elem ''div''
          [Elem ''h3'' [Text ''Current Job Status''],
           Elem ''div''
             [counter_cell (shown total_processed p) ''Processed'',
              counter_cell (shown successful_submissions p) ''Successful'',
              counter_cell (shown failed_submissions p) ''Failed'',
              counter_cell (shown duplicates_skipped p) ''Skipped'']]]"

text \<open>Lines 296-302: the notice of the scraping tab, which prints \<^verbatim>\<open>current_job\<close>.\<close>

definition running_notice :: "'a pipeline_status_scheme \<Rightarrow> view list" where
  "running_notice p =
     guarded (is_running p)
       [Elem ''div'' [Elem ''p'' (Text ''Job is currently running: '' # render_value (current_job p))]]"

text \<open>
  All that the page shows of the snapshot on tab \<open>tab\<close> (\<^verbatim>\<open>activeTab\<close>): the badge, and the
  card or the notice on their tabs.
\<close>

definition job_status_view :: "string \<Rightarrow> 'a pipeline_status_scheme \<Rightarrow> view list" where
  "job_status_view tab p =
     running_badge p
     @ (if tab = ''dashboard'' then current_job_card p else [])
     @ (if tab = ''scraping'' then running_notice p else [])"

section \<open>The ingestion pipeline, from the specification\<close>

text \<open>
  The repository's files hold the dashboard only. The pipeline behind the endpoints the
  dashboard calls is taken from the specification's sections 3 to 6; every definition of
  this section says which sentences it follows.
\<close>

subsection \<open>Jobs and the Job Registry\<close>

text \<open>Modelled from the spec: the states of a Job (section 3).\<close>

datatype job_state = Pending | Running | Completed | Failed

text \<open>
  Modelled from the spec: the Job of section 3 (the Coordinator and the Job Registry are
  missing from the files). Its fields \<open>id\<close>, \<open>stats\<close> and \<open>error\<close> are named \<open>jid\<close>,
  \<open>job_stats\<close> and \<open>job_error\<close> here; \<open>started_at\<close> and \<open>ended_at\<close> are left out, as the
  model has no clock.
\<close>

record job =
  jid :: string
  spider_name :: string
  max_items :: nat
  state :: job_state
  job_stats :: "nat stats"
  job_error :: "string option"

text \<open>Modelled from the spec: the four counters of a Job's \<open>stats\<close> (section 3), as names.\<close>

datatype counter = TotalProcessed | SuccessfulSubmissions | FailedSubmissions | DuplicatesSkipped

text \<open>
  Modelled from the spec: \<open>update_stats\<close> of the Job Registry (section 4.5), the atomic
  increment of one counter.
\<close>

fun increment :: "counter \<Rightarrow> nat stats \<Rightarrow> nat stats" where
  "increment TotalProcessed st = st\<lparr>total_processed := Suc (total_processed st)\<rparr>"
| "increment SuccessfulSubmissions st = st\<lparr>successful_submissions := Suc (successful_submissions st)\<rparr>"
| "increment FailedSubmissions st = st\<lparr>failed_submissions := Suc (failed_submissions st)\<rparr>"
| "increment DuplicatesSkipped st = st\<lparr>duplicates_skipped := Suc (duplicates_skipped st)\<rparr>"

text \<open>Modelled from the spec: \<open>update_stats\<close> on a Job of the registry.\<close>

definition update_stats :: "counter \<Rightarrow> job \<Rightarrow> job" where
  "update_stats c j = j\<lparr>job_stats := increment c (job_stats j)\<rparr>"

text \<open>
  Modelled from the spec: \<open>transition\<close> of the Job Registry (section 4.5), which rejects
  every transition but \<open>Pending \<rightarrow> Running \<rightarrow> {Completed, Failed}\<close>.
\<close>

fun valid_transition :: "job_state \<Rightarrow> job_state \<Rightarrow> bool" where
  "valid_transition Pending Running = True"
| "valid_transition Running Completed = True"
| "valid_transition Running Failed = True"
| "valid_transition _ _ = False"

text \<open>Modelled from the spec: \<open>transition(state)\<close> (section 4.5); \<open>None\<close> is the rejection.\<close>

definition transition :: "job_state \<Rightarrow> job \<Rightarrow> job option" where
  "transition target j = (if valid_transition (state j) target then Some (j\<lparr>state := target\<rparr>) else None)"

text \<open>Modelled from the spec: the statistics of a Job that has processed nothing.\<close>

definition no_stats :: "nat stats" where
  "no_stats = \<lparr>total_processed = 0, successful_submissions = 0, failed_submissions = 0, duplicates_skipped = 0\<rparr>"

text \<open>Modelled from the spec: the \<open>message\<close> of a rejected submission (section 6); its text is this model's.\<close>

definition job_already_running :: string where
  "job_already_running = ''A scraping job is already running''"

text \<open>
  Modelled from the spec: \<open>create\<close> of the Job Registry (sections 4.5 and 5), which
  rejects a submission while another Job is \<open>Running\<close>. The spec fixes neither how a job
  id is made (\<open>new_id\<close> is a parameter) nor the text of the rejection.
\<close>

definition create :: "job list \<Rightarrow> string \<Rightarrow> string \<Rightarrow> nat \<Rightarrow> string + job \<times> job list" where
  "create registry new_id spider cap =
     (if list_ex (\<lambda>j. state j = Running) registry then Inl job_already_running
      else
        let j = \<lparr>jid = new_id, spider_name = spider, max_items = cap, state = Pending,
                 job_stats = no_stats, job_error = None\<rparr>
        in Inr (j, registry @ [j]))"

text \<open>
  Modelled from the spec: the endpoint \<open>POST /api/start-scraping\<close> of section 6. Its
  answer is always a response body (\<open>Inr\<close>), never a failed request.
\<close>

definition start_scraping :: "job list \<Rightarrow> string \<Rightarrow> string \<Rightarrow> nat \<Rightarrow> start_response response \<times> job list" where
  "start_scraping registry new_id spider cap =
     (case create registry new_id spider cap of
        Inl reason \<Rightarrow>
          (Inr \<lparr>success = Boolean False, job_id = Undefined, message = Str reason\<rparr>, registry)
      | Inr (j, registry') \<Rightarrow>
          (Inr \<lparr>success = Boolean True, job_id = Str (jid j), message = Undefined\<rparr>, registry'))"

subsection \<open>URLs and their canonical form\<close>

text \<open>
  Modelled from the spec: an absolute URL, held parsed into the parts that sections 3 and
  4.1 speak of (the Record Normalizer is missing from the files).
\<close>

record url =
  scheme :: string
  host :: string
  port :: "nat option"
  path :: string
  query :: "(string \<times> string) list"

text \<open>Modelled from the spec: the rejection of section 4.1.\<close>

datatype rejection_error = InvalidURL

text \<open>Modelled from the spec: lower-casing (section 4.1), on the letters A to Z.\<close>

definition lower_char :: "char \<Rightarrow> char" where
  "lower_char c = (let n = of_char c :: nat in if 65 \<le> n \<and> n \<le> 90 then char_of (n + 32) else c)"

text \<open>Modelled from the spec: lower-casing of a string.\<close>

definition lower :: "string \<Rightarrow> string" where
  "lower t = map lower_char t"

text \<open>Modelled from the spec: the default ports (section 4.1), 80 for http and 443 for https.\<close>

definition default_port :: "string \<Rightarrow> nat option" where
  "default_port sch = (if sch = ''http'' then Some 80 else if sch = ''https'' then Some 443 else None)"

text \<open>Modelled from the spec: "strips trailing slash" (section 4.1), every slash at the end.\<close>

definition strip_trailing_slash :: "string \<Rightarrow> string" where
  "strip_trailing_slash p = rev (dropWhile (\<lambda>c. c = CHR ''/'') (rev p))"

text \<open>Modelled from the spec: the tracking query parameters \<open>utm_*\<close> (section 4.1).\<close>

definition is_tracking :: "string \<Rightarrow> bool" where
  "is_tracking k = (take 4 k = ''utm_'')"

text \<open>
  Modelled from the spec: the canonicalization of section 4.1, "lower-cases scheme/host,
  removes default ports, strips trailing slash and tracking query parameters (utm_*).
  Rejects (fails with InvalidURL) if the result does not parse as an absolute HTTP(S)
  URL". Section 3 describes the canonical \<open>website_url\<close> as "trailing slash stripped",
  so no slash is left at the end of the path.
\<close>

definition canonicalize :: "url \<Rightarrow> rejection_error + url" where
  "canonicalize u =
     (let sch = lower (scheme u);
          canonical =
            \<lparr>scheme = sch,
             host = lower (host u),
             port = (if port u = default_port sch then None else port u),
             path = strip_trailing_slash (path u),
             query = filter (\<lambda>(k, v). \<not> is_tracking k) (query u)\<rparr>
      in if (sch = ''http'' \<or> sch = ''https'') \<and> host canonical \<noteq> [] then Inr canonical
         else Inl InvalidURL)"

subsection \<open>Records, entities and the store\<close>

text \<open>Modelled from the spec: the enum of \<open>pricing_model\<close> (section 3).\<close>

datatype pricing = Free | Freemium | Paid | Unknown

text \<open>
  Modelled from the spec: the fields that a NormalizedRecord and an Entity of section 3
  have in common.
\<close>

record listing =
  name :: string
  website_url :: url
  description :: string
  pricing_model :: pricing
  logo_url :: "string option"
  avg_rating :: "rat option"
  review_count :: "nat option"

text \<open>Modelled from the spec: the NormalizedRecord of section 3.\<close>

record normalized_record = listing +
  categories :: "string list"
  tags :: "string list"
  source_site :: string
  scraped_at :: nat

text \<open>
  Modelled from the spec: the Entity of section 3, without \<open>created_at\<close> and
  \<open>updated_at\<close> (the model has no clock).
\<close>

record entity = listing +
  entity_id :: nat
  category_ids :: "string set"
  tag_ids :: "string set"
  source_sites :: "string set"

text \<open>Modelled from the spec: the \<open>type\<close> of a TaxonomyTerm (section 3).\<close>

datatype term_type = Category | Tag | Feature

text \<open>Modelled from the spec: the MissingTaxonomyItem of section 3, without \<open>first_seen_at\<close>.\<close>

record missing_taxonomy_item =
  missing_type :: term_type
  raw_name :: string
  occurrence_count :: nat

text \<open>Modelled from the spec: the upsert of a miss (section 4.2, "Side effect").\<close>

fun upsert_missing_taxonomy :: "term_type \<Rightarrow> string \<Rightarrow> missing_taxonomy_item list \<Rightarrow> missing_taxonomy_item list" where
  "upsert_missing_taxonomy ty raw [] = [\<lparr>missing_type = ty, raw_name = raw, occurrence_count = 1\<rparr>]"
| "upsert_missing_taxonomy ty raw (m # ms) =
     (if missing_type m = ty \<and> raw_name m = raw then m\<lparr>occurrence_count := Suc (occurrence_count m)\<rparr> # ms
      else m # upsert_missing_taxonomy ty raw ms)"

text \<open>
  Modelled from the spec: step 2 of section 4.4. The Taxonomy Resolver's lookup is the
  parameter \<open>resolve\<close> (the taxonomy is read-only during a job); terms that do not
  resolve go to the log and do not block the record.
\<close>

fun resolve_all ::
  "(term_type \<Rightarrow> string \<Rightarrow> string option) \<Rightarrow> term_type \<Rightarrow> string list \<Rightarrow> missing_taxonomy_item list
   \<Rightarrow> string set \<times> missing_taxonomy_item list" where
  "resolve_all resolve ty [] missing = ({}, missing)"
| "resolve_all resolve ty (raw # raws) missing =
     (case resolve ty raw of
        Some term_id \<Rightarrow> (let (ids, missing') = resolve_all resolve ty raws missing in (insert term_id ids, missing'))
      | None \<Rightarrow> resolve_all resolve ty raws (upsert_missing_taxonomy ty raw missing))"

text \<open>Modelled from the spec: \<open>find_by_url\<close> of the store (section 6), the primary key of section 4.3.\<close>

definition find_by_url :: "url \<Rightarrow> entity list \<Rightarrow> entity option" where
  "find_by_url u store = find (\<lambda>e. website_url e = u) store"

text \<open>Modelled from the spec: the Entity that an insert makes of a record and its resolved terms
  (step 3 of section 4.4).\<close>

definition new_entity :: "nat \<Rightarrow> normalized_record \<Rightarrow> string set \<Rightarrow> string set \<Rightarrow> entity" where
  "new_entity i n cats tgs =
     \<lparr>name = name n, website_url = website_url n, description = description n,
      pricing_model = pricing_model n, logo_url = logo_url n, avg_rating = avg_rating n,
      review_count = review_count n,
      entity_id = i, category_ids = cats, tag_ids = tgs, source_sites = {source_site n}\<rparr>"

text \<open>Modelled from the spec: \<open>insert\<close> of the store (section 6).\<close>

definition insert_entity :: "normalized_record \<Rightarrow> string set \<Rightarrow> string set \<Rightarrow> entity list \<Rightarrow> entity list" where
  "insert_entity n cats tgs store = store @ [new_entity (length store) n cats tgs]"

text \<open>Modelled from the spec: "fill only currently-empty fields" (section 4.4), on an optional value.\<close>

definition fill :: "'a option \<Rightarrow> 'a option \<Rightarrow> 'a option" where
  "fill old new = (case old of None \<Rightarrow> new | Some v \<Rightarrow> Some v)"

text \<open>
  Modelled from the spec: the merge of step 3 of section 4.4, "union source_sites, fill
  only currently-empty fields on the existing entity, never overwrite a populated field
  with a new value". Empty is the empty string, an absent value, \<open>Unknown\<close> pricing and
  the empty set of ids.
\<close>

definition merge_entity :: "entity \<Rightarrow> normalized_record \<Rightarrow> string set \<Rightarrow> string set \<Rightarrow> entity" where
  "merge_entity e n cats tgs =
     e\<lparr>description := (if description e = [] then description n else description e),
       pricing_model := (if pricing_model e = Unknown then pricing_model n else pricing_model e),
       logo_url := fill (logo_url e) (logo_url n),
       avg_rating := fill (avg_rating e) (avg_rating n),
       review_count := fill (review_count e) (review_count n),
       category_ids := (if category_ids e = {} then cats else category_ids e),
       tag_ids := (if tag_ids e = {} then tgs else tag_ids e),
       source_sites := insert (source_site n) (source_sites e)\<rparr>"

text \<open>Modelled from the spec: \<open>merge\<close> of the store (section 6), on the entity that \<open>find_by_url\<close> gives.\<close>

fun merge_stored :: "normalized_record \<Rightarrow> string set \<Rightarrow> string set \<Rightarrow> entity list \<Rightarrow> entity list" where
  "merge_stored n cats tgs [] = []"
| "merge_stored n cats tgs (e # es) =
     (if website_url e = website_url n then merge_entity e n cats tgs # es
      else e # merge_stored n cats tgs es)"

subsection \<open>The Ingestion Coordinator\<close>

text \<open>Modelled from the spec: what became of a record (steps 1 and 3 of section 4.4).\<close>

datatype outcome = Inserted | Merged | Rejected

text \<open>Modelled from the spec: the counter that each outcome increments (steps 1 and 3 of section 4.4).\<close>

fun outcome_counter :: "outcome \<Rightarrow> counter" where
  "outcome_counter Inserted = SuccessfulSubmissions"
| "outcome_counter Merged = DuplicatesSkipped"
| "outcome_counter Rejected = FailedSubmissions"

text \<open>
  Modelled from the spec: steps 1 to 3 of section 4.4 on one record. The Record
  Normalizer is the parameter \<open>normalizer\<close> (a pure function, section 4.1); only the
  primary key decides a duplicate (the secondary heuristic of section 4.3 is off, the
  default that section 9 names); the store's writes do not fail.
\<close>

definition ingest ::
  "('r \<Rightarrow> 'e + normalized_record) \<Rightarrow> (term_type \<Rightarrow> string \<Rightarrow> string option) \<Rightarrow> 'r
   \<Rightarrow> entity list \<times> missing_taxonomy_item list \<Rightarrow> outcome \<times> entity list \<times> missing_taxonomy_item list" where
  "ingest normalizer resolve r sl =
     (case normalizer r of
        Inl rejection \<Rightarrow> (Rejected, sl)
      | Inr n \<Rightarrow>
          (let (cats, missing1) = resolve_all resolve Category (categories n) (snd sl);
               (tgs, missing2) = resolve_all resolve Tag (tags n) missing1
           in case find_by_url (website_url n) (fst sl) of
                Some e \<Rightarrow> (Merged, merge_stored n cats tgs (fst sl), missing2)
              | None \<Rightarrow> (Inserted, insert_entity n cats tgs (fst sl), missing2)))"

text \<open>
  Modelled from the spec: what the record stream of section 6 yields on a pull, a record
  or the stream's fatal error.
\<close>

datatype 'r pull = Record 'r | StreamFatalError string

text \<open>
  Modelled from the spec: where a Job value is observable (section 5), between the two
  increments of one record, after a record's last increment, and at the end of the run.
\<close>

datatype point = MidRecord | RecordBoundary | Terminal

text \<open>Modelled from the spec: what \<open>run_job\<close> leaves (section 4.4), the Job, the store, the log of
  missing terms, the part of the stream that was not pulled, and the values the Job took.\<close>

record 'r run =
  job_after :: job
  store_after :: "entity list"
  log_after :: "missing_taxonomy_item list"
  unpulled :: "'r pull list"
  history :: "(point \<times> job) list"

text \<open>
  Modelled from the spec: the loop of \<open>run_job\<close> (section 4.4) over the pulls of the
  stream, in arrival order. Per record: steps 1 to 3, the increment of the outcome's
  counter, step 4 (the increment of \<open>total_processed\<close>), step 5 (the cap). The end of
  the stream completes the Job; the stream's error fails it. \<open>history\<close> lists every value
  the Job takes, each increment being one atomic \<open>update_stats\<close>.
\<close>

fun run_records ::
  "('r \<Rightarrow> 'e + normalized_record) \<Rightarrow> (term_type \<Rightarrow> string \<Rightarrow> string option) \<Rightarrow> job
   \<Rightarrow> entity list \<times> missing_taxonomy_item list \<Rightarrow> 'r pull list \<Rightarrow> 'r run" where
  "run_records normalizer resolve j sl [] =
     (let finished = j\<lparr>state := Completed\<rparr>
      in \<lparr>job_after = finished, store_after = fst sl, log_after = snd sl, unpulled = [],
          history = [(Terminal, finished)]\<rparr>)"
| "run_records normalizer resolve j sl (StreamFatalError e # rest) =
     (let aborted = j\<lparr>state := Failed, job_error := Some e\<rparr>
      in \<lparr>job_after = aborted, store_after = fst sl, log_after = snd sl, unpulled = rest,
          history = [(Terminal, aborted)]\<rparr>)"
| "run_records normalizer resolve j sl (Record r # rest) =
     (let (out, sl') = ingest normalizer resolve r sl;
          j1 = update_stats (outcome_counter out) j;
          j2 = update_stats TotalProcessed j1
      in if max_items j2 \<le> total_processed (job_stats j2) then
           (let finished = j2\<lparr>state := Completed\<rparr>
            in \<lparr>job_after = finished, store_after = fst sl', log_after = snd sl', unpulled = rest,
                history = [(MidRecord, j1), (RecordBoundary, j2), (Terminal, finished)]\<rparr>)
         else
           (let later = run_records normalizer resolve j2 sl' rest
            in later\<lparr>history := (MidRecord, j1) # (RecordBoundary, j2) # history later\<rparr>))"

text \<open>
  Modelled from the spec: \<open>run_job\<close> of section 4.4 on a Job as \<open>create\<close> made it. The
  Job Registry refuses the run (\<open>None\<close>) unless the Job is \<open>Pending\<close>.
\<close>

definition run_job ::
  "('r \<Rightarrow> 'e + normalized_record) \<Rightarrow> (term_type \<Rightarrow> string \<Rightarrow> string option) \<Rightarrow> job
   \<Rightarrow> entity list \<times> missing_taxonomy_item list \<Rightarrow> 'r pull list \<Rightarrow> 'r run option" where
  "run_job normalizer resolve j sl stream =
     (case transition Running j of
        None \<Rightarrow> None
      | Some started \<Rightarrow> Some (run_records normalizer resolve started sl stream))"

text \<open>Modelled from the spec: the equation of section 8 on a Job's statistics.\<close>

definition counted :: "nat stats \<Rightarrow> bool" where
  "counted st = (total_processed st = successful_submissions st + failed_submissions st + duplicates_skipped st)"


subsection \<open>The scenarios of the specification's section 8\<close>

text \<open>Modelled from the spec: the record \<open>Tool A\<close> of section 8, after normalization.\<close>

definition tool_a :: normalized_record where
  "tool_a =
     \<lparr>name = ''Tool A'',
      website_url = \<lparr>scheme = ''https'', host = ''example.com'', port = None, path = [], query = []\<rparr>,
      description = [], pricing_model = Unknown, logo_url = None, avg_rating = None,
      review_count = None,
      categories = [''AI Writing''], tags = [], source_site = ''futuretools'', scraped_at = 0\<rparr>"


text \<open>Modelled from the spec: a taxonomy that knows \<open>AI Writing\<close> as an alias of \<open>cat_writing\<close>
  (section 8), matched without regard to case (section 4.2).\<close>

definition taxonomy :: "term_type \<Rightarrow> string \<Rightarrow> string option" where
  "taxonomy ty raw = (if ty = Category \<and> lower raw = ''ai writing'' then Some ''cat_writing'' else None)"

text \<open>Modelled from the spec: a Job with \<open>max_items = 2\<close> (section 8), as \<open>create\<close> makes it.\<close>

definition job_of_two :: job where
  "job_of_two =
     \<lparr>jid = ''job_1'', spider_name = ''futuretools'', max_items = 2, state = Pending,
      job_stats = no_stats, job_error = None\<rparr>"

section \<open>Properties of the dashboard\<close>

text \<open>
  C2. With a spider selected, submitting a job sends one POST to
  \<^verbatim>\<open>/api/start-scraping\<close> whose body holds exactly \<^verbatim>\<open>spider_name\<close> and \<^verbatim>\<open>max_items\<close>
  (followed by a status request when the start succeeded). An answer with
  \<^verbatim>\<open>success\<close> set is shown with its job id; an answer \<^verbatim>\<open>{success: false, message}\<close> is
  shown with its message (\<^verbatim>\<open>null\<close> for a message that is null). While a Job is
  \<open>Running\<close> the endpoint answers with such a failure value, a response body and not a
  failed request, and the dashboard shows the endpoint's message. The submit button is
  disabled exactly when \<^verbatim>\<open>loading\<close> is set or the snapshot's \<^verbatim>\<open>is_running\<close> is truthy, so
  always when the snapshot reports \<^verbatim>\<open>is_running: true\<close>.
\<close>

theorem start_scraping_request_and_answers:
  "selectedSpider s \<noteq> [] \<Longrightarrow>
     (requests (snd (startScrapingJob base reply status_reply s)) =
        HttpPost (base @ ''/api/start-scraping'')
          [(''spider_name'', Str (selectedSpider s)), (''max_items'', Number (maxItems s))]
        # (case reply of
             Inr data \<Rightarrow> if truthy (success data) then [HttpGet (base @ ''/api/status'')] else []
           | Inl err \<Rightarrow> []))
   \<and> (startScrapingJob base (Inr \<lparr>success = Boolean True, job_id = Str i, message = m\<rparr>) (Inr snapshot) s =
        (s\<lparr>loading := False, pipelineStatus := snapshot\<rparr>,
         [HttpPost (base @ ''/api/start-scraping'')
            [(''spider_name'', Str (selectedSpider s)), (''max_items'', Number (maxItems s))],
          Alert (''Scraping job started: '' @ i),
          HttpGet (base @ ''/api/status'')]))
   \<and> (startScrapingJob base (Inr \<lparr>success = Boolean False, job_id = i', message = Str why\<rparr>) status_reply s =
        (s\<lparr>loading := False\<rparr>,
         [HttpPost (base @ ''/api/start-scraping'')
            [(''spider_name'', Str (selectedSpider s)), (''max_items'', Number (maxItems s))],
          Alert (''Failed to start scraping: '' @ why)]))
   \<and> (startScrapingJob base (Inr \<lparr>success = Boolean False, job_id = i', message = Null\<rparr>) status_reply s =
        (s\<lparr>loading := False\<rparr>,
         [HttpPost (base @ ''/api/start-scraping'')
            [(''spider_name'', Str (selectedSpider s)), (''max_items'', Number (maxItems s))],
          Alert ''Failed to start scraping: null'']))
   \<and> (if list_ex (\<lambda>j. state j = Running) registry
        then start_scraping registry new_id (selectedSpider s) cap =
               (Inr \<lparr>success = Boolean False, job_id = Undefined, message = Str job_already_running\<rparr>, registry)
           \<and> snd (startScrapingJob base (fst (start_scraping registry new_id (selectedSpider s) cap)) status_reply s) =
               [HttpPost (base @ ''/api/start-scraping'')
                  [(''spider_name'', Str (selectedSpider s)), (''max_items'', Number (maxItems s))],
                Alert (''Failed to start scraping: '' @ job_already_running)]
        else \<exists>j. start_scraping registry new_id (selectedSpider s) cap =
               (Inr \<lparr>success = Boolean True, job_id = Str new_id, message = Undefined\<rparr>, registry @ [j]))
   \<and> (submit_disabled s = (loading s \<or> truthy (is_running (pipelineStatus s))))
   \<and> (if truthy (is_running (pipelineStatus s)) then submit_disabled s else submit_disabled s = loading s)
   \<and> (is_running (pipelineStatus s) = Boolean True \<longrightarrow> submit_disabled s)"
  by (auto simp add: startScrapingJob_def requests_def fetchPipelineStatus_def
      start_scraping_def create_def submit_disabled_def Let_def split: sum.splits)

text \<open>
  The dashboard with the spider \<open>futuretools\<close> selected and a running Job reported, while
  the registry holds a Job that is \<open>Running\<close>.
\<close>

theorem start_scraping_request_and_answers_witness:
  "selectedSpider (initial_state\<lparr>selectedSpider := ''futuretools'',
      pipelineStatus := \<lparr>is_running = Boolean True, current_job = Str ''job_1'', stats = None\<rparr>\<rparr>) \<noteq> []
   \<and> snd (startScrapingJob ''http://localhost:8001''
        (fst (start_scraping [job_of_two\<lparr>state := Running\<rparr>] ''job_2'' ''futuretools'' 50))
        (Inl ''Network Error'')
        (initial_state\<lparr>selectedSpider := ''futuretools'',
           pipelineStatus := \<lparr>is_running = Boolean True, current_job = Str ''job_1'', stats = None\<rparr>\<rparr>)) =
       [HttpPost ''http://localhost:8001/api/start-scraping''
          [(''spider_name'', Str ''futuretools''), (''max_items'', Number (Num 50))],
        Alert ''Failed to start scraping: A scraping job is already running'']
   \<and> submit_disabled (initial_state\<lparr>selectedSpider := ''futuretools'',
        pipelineStatus := \<lparr>is_running = Boolean True, current_job = Str ''job_1'', stats = None\<rparr>\<rparr>)"
  using start_scraping_request_and_answers
    [of "initial_state\<lparr>selectedSpider := ''futuretools'',
           pipelineStatus := \<lparr>is_running = Boolean True, current_job = Str ''job_1'', stats = None\<rparr>\<rparr>"
        "''http://localhost:8001''" "Inl ''Network Error''" "Inl ''Network Error''"
        "''job_1''" Undefined "\<lparr>is_running = Boolean False, current_job = Null, stats = None\<rparr>" Undefined "''busy''"
        "[job_of_two\<lparr>state := Running\<rparr>]" "''job_2''" 50]
  by (simp add: initial_state_def job_of_two_def job_already_running_def startScrapingJob_def
      start_scraping_def create_def submit_disabled_def)

subsection \<open>The timer of the effect hook\<close>

lemma mount_timer:
  "useEffect_mount base r1 r2 r3 s (fresh_browser t0) = (s', effs, interval, b) \<Longrightarrow>
   timers b = [\<lparr>handle = interval, delay = 3000, since = t0, callback = PollPipelineStatus\<rparr>]"
  by (auto simp add: useEffect_mount_def fresh_browser_def setInterval_def split: prod.splits)

lemma mount_requests:
  "useEffect_mount base r1 r2 r3 s b0 = (s', effs, interval, b) \<Longrightarrow>
   requests effs =
     [HttpGet (base @ ''/api/spiders''), HttpGet (base @ ''/api/status''), HttpGet (base @ ''/api/test-services'')]"
proof -
  have a: "requests (snd (fetchSpiders base r1 x)) = [HttpGet (base @ ''/api/spiders'')]" for x
    by (cases r1) (simp_all add: fetchSpiders_def requests_def)
  have b: "requests (snd (fetchPipelineStatus base r2 x)) = [HttpGet (base @ ''/api/status'')]" for x
    by (cases r2) (simp_all add: fetchPipelineStatus_def requests_def)
  have c: "requests (snd (fetchServiceStatus base r3 x)) = [HttpGet (base @ ''/api/test-services'')]" for x
    by (cases r3) (simp_all add: fetchServiceStatus_def requests_def)
  have d: "requests (xs @ ys) = requests xs @ requests ys" for xs ys
    by (simp add: requests_def)
  have e: "requests (requests xs) = requests xs" for xs
    by (simp add: requests_def)
  have f: "requests (on_reply xs) = []" for xs
    by (induction xs) (simp_all add: requests_def on_reply_def split: effect.splits)
  assume m: "useEffect_mount base r1 r2 r3 s b0 = (s', effs, interval, b)"
  have eq: "effs = requests (snd (fetchSpiders base r1 s))
      @ requests (snd (fetchPipelineStatus base r2 (fst (fetchSpiders base r1 s))))
      @ requests (snd (fetchServiceStatus base r3 (fst (fetchPipelineStatus base r2 (fst (fetchSpiders base r1 s))))))
      @ on_reply (snd (fetchSpiders base r1 s))
      @ on_reply (snd (fetchPipelineStatus base r2 (fst (fetchSpiders base r1 s))))
      @ on_reply (snd (fetchServiceStatus base r3 (fst (fetchPipelineStatus base r2 (fst (fetchSpiders base r1 s))))))"
    using m by (auto simp add: useEffect_mount_def split: prod.splits)
  show ?thesis
    unfolding eq d e f a b c by (simp add: requests_def)
qed

lemma fire_one_timer:
  "timers b = [tm] \<Longrightarrow> callback tm = PollPipelineStatus \<Longrightarrow>
   fire base reply t b s1 = (if due t tm then fetchPipelineStatus base reply s1 else (s1, []))"
  by (simp add: fire_def run_callback_def split: prod.splits)

lemma fire_no_timer: "timers b = [] \<Longrightarrow> fire base reply t b s1 = (s1, [])"
  by (simp add: fire_def)

lemma requests_nil: "requests [] = []"
  by (simp add: requests_def)

lemma poll_requests:
  "requests (snd (fetchPipelineStatus base reply s1)) = [HttpGet (base @ ''/api/status'')]"
  by (cases reply) (simp_all add: fetchPipelineStatus_def requests_def)

lemma poll_state:
  "fst (fetchPipelineStatus base reply s1) =
     (case reply of Inr data \<Rightarrow> s1\<lparr>pipelineStatus := data\<rparr> | Inl err \<Rightarrow> s1)"
  by (cases reply) (simp_all add: fetchPipelineStatus_def)

text \<open>
  C3. Mounting the component sends the three initial requests and registers one
  interval timer, of 3000 ms, whose callback fetches \<^verbatim>\<open>/api/status\<close>. From then on the
  timers send a request exactly at every multiple of 3000 ms after the mount, and the
  request is \<^verbatim>\<open>GET /api/status\<close> and nothing else; the state changes at those times
  only, and only in that the reply to the request, when there is one, becomes the
  snapshot. The cleanup run on unmount clears the timer, after which no time sends or
  changes anything. The snapshot is pulled; nothing is pushed to the dashboard.
\<close>

theorem status_polled_every_three_seconds:
  assumes "useEffect_mount base r1 r2 r3 s (fresh_browser t0) = (s', effs, interval, b)"
  shows "requests effs =
       [HttpGet (base @ ''/api/spiders''), HttpGet (base @ ''/api/status''), HttpGet (base @ ''/api/test-services'')]
   \<and> timers b = [\<lparr>handle = interval, delay = 3000, since = t0, callback = PollPipelineStatus\<rparr>]
   \<and> requests (snd (fire base reply t b s1)) =
        (if t0 < t \<and> (t - t0) mod 3000 = 0 then [HttpGet (base @ ''/api/status'')] else [])
   \<and> fst (fire base reply t b s1) =
        (if t0 < t \<and> (t - t0) mod 3000 = 0
         then (case reply of Inr data \<Rightarrow> s1\<lparr>pipelineStatus := data\<rparr> | Inl err \<Rightarrow> s1)
         else s1)
   \<and> timers (useEffect_cleanup interval b) = []
   \<and> fire base reply t (useEffect_cleanup interval b) s1 = (s1, [])"
proof -
  let ?tm = "\<lparr>handle = interval, delay = 3000, since = t0, callback = PollPipelineStatus\<rparr>"
  have tm: "timers b = [?tm]"
    using assms by (rule mount_timer)
  have rq: "requests effs =
       [HttpGet (base @ ''/api/spiders''), HttpGet (base @ ''/api/status''), HttpGet (base @ ''/api/test-services'')]"
    using assms by (rule mount_requests)
  have due: "due t ?tm = (t0 < t \<and> (t - t0) mod 3000 = 0)"
    by (simp add: due_def)
  have f: "fire base reply t b s1 = (if due t ?tm then fetchPipelineStatus base reply s1 else (s1, []))"
    using tm by (simp add: fire_one_timer)
  have f1: "requests (snd (fire base reply t b s1)) =
        (if t0 < t \<and> (t - t0) mod 3000 = 0 then [HttpGet (base @ ''/api/status'')] else [])"
    unfolding f due by (simp add: poll_requests requests_nil)
  have f2: "fst (fire base reply t b s1) =
        (if t0 < t \<and> (t - t0) mod 3000 = 0
         then (case reply of Inr data \<Rightarrow> s1\<lparr>pipelineStatus := data\<rparr> | Inl err \<Rightarrow> s1)
         else s1)"
    unfolding f due by (simp add: poll_state)
  have cl: "timers (useEffect_cleanup interval b) = []"
    using tm by (simp add: useEffect_cleanup_def clearInterval_def)
  have f3: "fire base reply t (useEffect_cleanup interval b) s1 = (s1, [])"
    using cl by (rule fire_no_timer)
  from rq tm f1 f2 cl f3 show ?thesis by blast
qed

text \<open>Mounted at time 0 with the backend down: a poll at 6000 ms, none at 7000 ms.\<close>

theorem status_polled_every_three_seconds_witness:
  "useEffect_mount ''http://localhost:8001'' (Inl ''Network Error'') (Inl ''Network Error'')
      (Inl ''Network Error'') initial_state (fresh_browser 0) =
     (initial_state,
      [HttpGet ''http://localhost:8001/api/spiders'',
       HttpGet ''http://localhost:8001/api/status'',
       HttpGet ''http://localhost:8001/api/test-services'',
       ConsoleError ''Failed to fetch spiders:'' ''Network Error'',
       ConsoleError ''Failed to fetch pipeline status:'' ''Network Error'',
       ConsoleError ''Failed to fetch service status:'' ''Network Error''],
      1,
      \<lparr>now = 0, timers = [\<lparr>handle = 1, delay = 3000, since = 0, callback = PollPipelineStatus\<rparr>],
        next_handle = 2\<rparr>)
   \<and> requests (snd (fire ''http://localhost:8001'' (Inl ''Network Error'') 6000
        \<lparr>now = 0, timers = [\<lparr>handle = 1, delay = 3000, since = 0, callback = PollPipelineStatus\<rparr>],
          next_handle = 2\<rparr> initial_state)) = [HttpGet ''http://localhost:8001/api/status'']
   \<and> requests (snd (fire ''http://localhost:8001'' (Inl ''Network Error'') 7000
        \<lparr>now = 0, timers = [\<lparr>handle = 1, delay = 3000, since = 0, callback = PollPipelineStatus\<rparr>],
          next_handle = 2\<rparr> initial_state)) = []"
proof -
  have m: "useEffect_mount ''http://localhost:8001'' (Inl ''Network Error'') (Inl ''Network Error'')
      (Inl ''Network Error'') initial_state (fresh_browser 0) =
     (initial_state,
      [HttpGet ''http://localhost:8001/api/spiders'',
       HttpGet ''http://localhost:8001/api/status'',
       HttpGet ''http://localhost:8001/api/test-services'',
       ConsoleError ''Failed to fetch spiders:'' ''Network Error'',
       ConsoleError ''Failed to fetch pipeline status:'' ''Network Error'',
       ConsoleError ''Failed to fetch service status:'' ''Network Error''],
      1,
      \<lparr>now = 0, timers = [\<lparr>handle = 1, delay = 3000, since = 0, callback = PollPipelineStatus\<rparr>],
        next_handle = 2\<rparr>)"
    by (simp add: useEffect_mount_def fetchSpiders_def fetchPipelineStatus_def fetchServiceStatus_def
        setInterval_def fresh_browser_def requests_def on_reply_def)
  show ?thesis
    using m status_polled_every_three_seconds [OF m, of "Inl ''Network Error''" 6000 initial_state]
      status_polled_every_three_seconds [OF m, of "Inl ''Network Error''" 7000 initial_state]
    by simp
qed

text \<open>
  C7, as amended. The claim says that the view renders only the job's running state and
  the four counters. The notice of the scraping tab (lines 296-302) prints
  \<^verbatim>\<open>current_job\<close> as well, so two snapshots with the same running state and the same
  counters can render differently. What holds, for the badge, the card and the notice
  together: with \<^verbatim>\<open>is_running\<close> a boolean and \<^verbatim>\<open>current_job\<close> truthy, the dashboard tab
  shows the four counters of the snapshot, each 0 when \<^verbatim>\<open>stats\<close> or the counter is
  absent, under fixed labels, and \<open>Running\<close> exactly when \<^verbatim>\<open>is_running\<close> is true; the
  scraping tab prints \<^verbatim>\<open>current_job\<close> after a fixed text while \<^verbatim>\<open>is_running\<close> is true;
  nothing is shown when nothing runs; a falsy number in \<^verbatim>\<open>is_running\<close> is printed as it
  is; and snapshots that agree on \<^verbatim>\<open>is_running\<close>, \<^verbatim>\<open>current_job\<close> and \<^verbatim>\<open>stats\<close> render
  alike whatever else they carry, so no per-record detail is rendered.
\<close>

theorem job_status_view_renders:
  "(is_running p = Boolean r \<and> truthy (current_job p) \<longrightarrow>
      concat (map numbers (job_status_view ''dashboard'' p)) =
        [case stats p of None \<Rightarrow> 0 | Some st \<Rightarrow> (case total_processed st of None \<Rightarrow> 0 | Some n \<Rightarrow> n),
         case stats p of None \<Rightarrow> 0 | Some st \<Rightarrow> (case successful_submissions st of None \<Rightarrow> 0 | Some n \<Rightarrow> n),
         case stats p of None \<Rightarrow> 0 | Some st \<Rightarrow> (case failed_submissions st of None \<Rightarrow> 0 | Some n \<Rightarrow> n),
         case stats p of None \<Rightarrow> 0 | Some st \<Rightarrow> (case duplicates_skipped st of None \<Rightarrow> 0 | Some n \<Rightarrow> n)]
    \<and> concat (map texts (job_status_view ''dashboard'' p)) =
        (if r then [''Running''] else [])
        @ [''Current Job Status'', ''Processed'', ''Successful'', ''Failed'', ''Skipped''])
   \<and> (is_running p = Boolean r \<and> truthy (current_job p) \<and> stats p = None \<longrightarrow>
        concat (map numbers (job_status_view ''dashboard'' p)) = [0, 0, 0, 0])
   \<and> (is_running p = Boolean True \<and> current_job p = Str job \<longrightarrow>
        concat (map texts (job_status_view ''scraping'' p)) =
          [''Running'', ''Job is currently running: ''] @ (if job = [] then [] else [job])
      \<and> concat (map numbers (job_status_view ''scraping'' p)) = [])
   \<and> ((is_running p = Undefined \<or> is_running p = Null \<or> is_running p = Boolean False)
        \<and> (current_job p = Undefined \<or> current_job p = Null \<or> current_job p = Str []) \<longrightarrow>
        job_status_view tab p = [])
   \<and> (is_running p = Number (Num 0) \<longrightarrow> take 1 (job_status_view tab p) = [NumberText 0])
   \<and> (is_running q = is_running p \<and> current_job q = current_job p \<and> stats q = stats p \<longrightarrow>
        job_status_view tab q = job_status_view tab p)"
proof -
  have d: "is_running p = Boolean r \<and> truthy (current_job p) \<longrightarrow>
      concat (map numbers (job_status_view ''dashboard'' p)) =
        [case stats p of None \<Rightarrow> 0 | Some st \<Rightarrow> (case total_processed st of None \<Rightarrow> 0 | Some n \<Rightarrow> n),
         case stats p of None \<Rightarrow> 0 | Some st \<Rightarrow> (case successful_submissions st of None \<Rightarrow> 0 | Some n \<Rightarrow> n),
         case stats p of None \<Rightarrow> 0 | Some st \<Rightarrow> (case failed_submissions st of None \<Rightarrow> 0 | Some n \<Rightarrow> n),
         case stats p of None \<Rightarrow> 0 | Some st \<Rightarrow> (case duplicates_skipped st of None \<Rightarrow> 0 | Some n \<Rightarrow> n)]
    \<and> concat (map texts (job_status_view ''dashboard'' p)) =
        (if r then [''Running''] else [])
        @ [''Current Job Status'', ''Processed'', ''Successful'', ''Failed'', ''Skipped'']"
    by (simp add: job_status_view_def running_badge_def current_job_card_def counter_cell_def
        guarded_def shown_def split: option.splits)
  have z: "is_running p = Boolean r \<and> truthy (current_job p) \<and> stats p = None \<longrightarrow>
        concat (map numbers (job_status_view ''dashboard'' p)) = [0, 0, 0, 0]"
    using d by simp
  have n: "is_running p = Boolean True \<and> current_job p = Str job \<longrightarrow>
        concat (map texts (job_status_view ''scraping'' p)) =
          [''Running'', ''Job is currently running: ''] @ (if job = [] then [] else [job])
      \<and> concat (map numbers (job_status_view ''scraping'' p)) = []"
    by (simp add: job_status_view_def running_badge_def running_notice_def guarded_def)
  have e: "(is_running p = Undefined \<or> is_running p = Null \<or> is_running p = Boolean False)
        \<and> (current_job p = Undefined \<or> current_job p = Null \<or> current_job p = Str []) \<longrightarrow>
        job_status_view tab p = []"
    by (auto simp add: job_status_view_def running_badge_def current_job_card_def running_notice_def
        guarded_def)
  have f: "is_running p = Number (Num 0) \<longrightarrow> take 1 (job_status_view tab p) = [NumberText 0]"
    by (simp add: job_status_view_def running_badge_def guarded_def)
  have i: "is_running q = is_running p \<and> current_job q = current_job p \<and> stats q = stats p \<longrightarrow>
        job_status_view tab q = job_status_view tab p"
    by (simp add: job_status_view_def running_badge_def current_job_card_def running_notice_def
        shown_def)
  from d z n e f i show ?thesis by blast
qed

text \<open>
  A snapshot of a running job with counters 7, 4, 2 and 1, and the same job with no
  \<^verbatim>\<open>stats\<close>.
\<close>

theorem job_status_view_renders_witness:
  "concat (map numbers (job_status_view ''dashboard''
      \<lparr>is_running = Boolean True, current_job = Str ''job_1'',
       stats = Some \<lparr>total_processed = Some 7, successful_submissions = Some 4,
                     failed_submissions = Some 2, duplicates_skipped = Some 1\<rparr>\<rparr>)) = [7, 4, 2, 1]
   \<and> concat (map texts (job_status_view ''dashboard''
      \<lparr>is_running = Boolean True, current_job = Str ''job_1'',
       stats = Some \<lparr>total_processed = Some 7, successful_submissions = Some 4,
                     failed_submissions = Some 2, duplicates_skipped = Some 1\<rparr>\<rparr>)) =
       [''Running'', ''Current Job Status'', ''Processed'', ''Successful'', ''Failed'', ''Skipped'']
   \<and> concat (map numbers (job_status_view ''dashboard''
      \<lparr>is_running = Boolean True, current_job = Str ''job_1'', stats = None\<rparr>)) = [0, 0, 0, 0]"
  using job_status_view_renders
    [of "\<lparr>is_running = Boolean True, current_job = Str ''job_1'',
          stats = Some \<lparr>total_processed = Some 7, successful_submissions = Some 4,
                        failed_submissions = Some 2, duplicates_skipped = Some 1\<rparr>\<rparr>"
        True "''job_1''" "''dashboard''"
        "\<lparr>is_running = Boolean True, current_job = Str ''job_1'',
          stats = Some \<lparr>total_processed = Some 7, successful_submissions = Some 4,
                        failed_submissions = Some 2, duplicates_skipped = Some 1\<rparr>\<rparr>"]
    job_status_view_renders
    [of "\<lparr>is_running = Boolean True, current_job = Str ''job_1'', stats = None\<rparr>"
        True "''job_1''" "''dashboard''"
        "\<lparr>is_running = Boolean True, current_job = Str ''job_1'', stats = None\<rparr>"]
  by simp

text \<open>
  The claim as stated fails on the scraping tab: two snapshots of a running job, with
  the same running state and the same counters, render different texts.
\<close>

theorem job_status_view_prints_current_job:
  "concat (map texts (job_status_view ''scraping''
      \<lparr>is_running = Boolean True, current_job = Str ''job_1'', stats = None\<rparr>)) =
     [''Running'', ''Job is currently running: '', ''job_1'']
   \<and> concat (map texts (job_status_view ''scraping''
      \<lparr>is_running = Boolean True, current_job = Str ''job_2'', stats = None\<rparr>)) =
     [''Running'', ''Job is currently running: '', ''job_2'']
   \<and> job_status_view ''scraping'' \<lparr>is_running = Boolean True, current_job = Str ''job_1'', stats = None\<rparr>
     \<noteq> job_status_view ''scraping'' \<lparr>is_running = Boolean True, current_job = Str ''job_2'', stats = None\<rparr>"
  by (simp add: job_status_view_def running_badge_def running_notice_def guarded_def)

text \<open>
  C8. Fetching the results of spider \<open>spiderName\<close> leaves the stored results of every
  other spider as they were, whether the request succeeds or fails; no other piece of
  state changes either.
\<close>

theorem fetchScrapingResults_frame:
  "k \<noteq> spiderName \<Longrightarrow>
     scrapingResults (fst (fetchScrapingResults base spiderName reply s)) k = scrapingResults s k
   \<and> fst (fetchScrapingResults base spiderName reply s) =
       s\<lparr>scrapingResults := scrapingResults (fst (fetchScrapingResults base spiderName reply s))\<rparr>"
  by (simp add: fetchScrapingResults_def split: sum.splits)

theorem fetchScrapingResults_frame_witness:
  "''toolify'' \<noteq> ''futuretools''
   \<and> scrapingResults (fst (fetchScrapingResults ''http://localhost:8001'' ''futuretools''
        (Inr \<lparr>results_count = 0, results = []\<rparr>)
        (initial_state\<lparr>scrapingResults := [''toolify'' \<mapsto> \<lparr>results_count = 7, results = []\<rparr>]\<rparr>))) ''toolify''
       = Some \<lparr>results_count = 7, results = []\<rparr>"
  using fetchScrapingResults_frame
    [of "''toolify''" "''futuretools''" "''http://localhost:8001''" "Inr \<lparr>results_count = 0, results = []\<rparr>"
        "initial_state\<lparr>scrapingResults := [''toolify'' \<mapsto> \<lparr>results_count = 7, results = []\<rparr>]\<rparr>"]
  by simp

text \<open>
  C9. When the request fails, each of the six fetch operations leaves the whole state
  as it was; all it does besides the request is log the error to the console.
\<close>

theorem failed_fetch_keeps_state:
  "fetchSpiders base (Inl err) s =
     (s, [HttpGet (base @ ''/api/spiders''), ConsoleError ''Failed to fetch spiders:'' err])
   \<and> fetchPipelineStatus base (Inl err) s =
     (s, [HttpGet (base @ ''/api/status''), ConsoleError ''Failed to fetch pipeline status:'' err])
   \<and> fetchServiceStatus base (Inl err) s =
     (s, [HttpGet (base @ ''/api/test-services''), ConsoleError ''Failed to fetch service status:'' err])
   \<and> fetchLogs base (Inl err) s =
     (s, [HttpGet (base @ ''/api/logs?lines=100''), ConsoleError ''Failed to fetch logs:'' err])
   \<and> fetchMissingTaxonomy base (Inl err) s =
     (s, [HttpGet (base @ ''/api/missing-taxonomy''), ConsoleError ''Failed to fetch missing taxonomy:'' err])
   \<and> fetchScrapingResults base spiderName (Inl err) s =
     (s, [HttpGet (base @ ''/api/scraping-results/'' @ spiderName),
          ConsoleError ''Failed to fetch scraping results:'' err])"
  by (simp add: fetchSpiders_def fetchPipelineStatus_def fetchServiceStatus_def fetchLogs_def
      fetchMissingTaxonomy_def fetchScrapingResults_def)

theorem failed_fetch_keeps_state_witness:
  "fst (fetchLogs (API_BASE_URL None) (Inl ''Network Error'') (initial_state\<lparr>logs := [''started'']\<rparr>))
     = initial_state\<lparr>logs := [''started'']\<rparr>
   \<and> logs (fst (fetchLogs (API_BASE_URL None) (Inl ''Network Error'') (initial_state\<lparr>logs := [''started'']\<rparr>)))
     = [''started'']"
  using failed_fetch_keeps_state
    [of "API_BASE_URL None" "''Network Error''" "initial_state\<lparr>logs := [''started'']\<rparr>" "''futuretools''"]
  by simp

text \<open>
  C10. With no spider selected, \<^verbatim>\<open>startScrapingJob\<close> shows the alert and returns: it
  sends no request, and the state (the loading flag with it) is as before.
\<close>

theorem startScrapingJob_without_spider:
  "selectedSpider s = [] \<Longrightarrow>
     startScrapingJob base reply status_reply s = (s, [Alert ''Please select a spider''])
   \<and> requests (snd (startScrapingJob base reply status_reply s)) = []
   \<and> loading (fst (startScrapingJob base reply status_reply s)) = loading s"
  by (simp add: startScrapingJob_def requests_def)

theorem startScrapingJob_without_spider_witness:
  "selectedSpider initial_state = []
   \<and> startScrapingJob ''http://localhost:8001''
        (Inr \<lparr>success = Boolean True, job_id = Str ''job_1'', message = Undefined\<rparr>) (Inl ''Network Error'')
        initial_state
       = (initial_state, [Alert ''Please select a spider''])"
  using startScrapingJob_without_spider
    [of initial_state "''http://localhost:8001''"
        "Inr \<lparr>success = Boolean True, job_id = Str ''job_1'', message = Undefined\<rparr>" "Inl ''Network Error''"]
  by (simp add: initial_state_def)

section \<open>Properties of the pipeline as specified\<close>

subsection \<open>The statistics of a run\<close>

lemma history_points:
  "counted (job_stats j) \<Longrightarrow>
   (p, j') \<in> set (history (run_records normalizer resolve j sl stream)) \<Longrightarrow>
   (if p = MidRecord
    then Suc (total_processed (job_stats j')) =
           successful_submissions (job_stats j') + failed_submissions (job_stats j') + duplicates_skipped (job_stats j')
    else counted (job_stats j'))"
proof (induction stream arbitrary: j sl)
  case Nil
  then show ?case by (auto simp add: Let_def)
next
  case (Cons x stream)
  show ?case
  proof (cases x)
    case (StreamFatalError e)
    with Cons.prems show ?thesis by (auto simp add: Let_def)
  next
    case (Record r)
    obtain out sl' where i: "ingest normalizer resolve r sl = (out, sl')"
      by (cases "ingest normalizer resolve r sl") auto
    let ?j1 = "update_stats (outcome_counter out) j"
    let ?j2 = "update_stats TotalProcessed ?j1"
    have c2: "counted (job_stats ?j2)"
      using Cons.prems(1) by (cases out) (simp_all add: update_stats_def counted_def)
    have m1: "Suc (total_processed (job_stats ?j1)) =
           successful_submissions (job_stats ?j1) + failed_submissions (job_stats ?j1) + duplicates_skipped (job_stats ?j1)"
      using Cons.prems(1) by (cases out) (simp_all add: update_stats_def counted_def)
    show ?thesis
    proof (cases "max_items ?j2 \<le> total_processed (job_stats ?j2)")
      case True
      with Cons.prems(2) Record i have
        "(p, j') = (MidRecord, ?j1) \<or> (p, j') = (RecordBoundary, ?j2) \<or> (p, j') = (Terminal, ?j2\<lparr>state := Completed\<rparr>)"
        by (simp add: Let_def)
      with c2 m1 show ?thesis by auto
    next
      case False
      with Cons.prems(2) Record i have
        "(p, j') = (MidRecord, ?j1) \<or> (p, j') = (RecordBoundary, ?j2)
         \<or> (p, j') \<in> set (history (run_records normalizer resolve ?j2 sl' stream))"
        by (simp add: Let_def)
      with c2 m1 Cons.IH [OF c2, of sl'] show ?thesis by (cases sl') auto
    qed
  qed
qed

lemma job_after_counted:
  "counted (job_stats j) \<Longrightarrow> counted (job_stats (job_after (run_records normalizer resolve j sl stream)))"
proof (induction stream arbitrary: j sl)
  case Nil
  then show ?case by (simp add: Let_def)
next
  case (Cons x stream)
  show ?case
  proof (cases x)
    case (StreamFatalError e)
    with Cons.prems show ?thesis by (simp add: Let_def)
  next
    case (Record r)
    obtain out sl' where i: "ingest normalizer resolve r sl = (out, sl')"
      by (cases "ingest normalizer resolve r sl") auto
    have c2: "counted (job_stats (update_stats TotalProcessed (update_stats (outcome_counter out) j)))"
      using Cons.prems by (cases out) (simp_all add: update_stats_def counted_def)
    show ?thesis
      using Record i c2 Cons.IH [OF c2, of sl'] by (simp add: Let_def)
  qed
qed

subsection \<open>Ingesting a record again\<close>

lemma resolve_all_ids:
  "fst (resolve_all resolve ty raws m) = fst (resolve_all resolve ty raws m')"
proof (induction raws arbitrary: m m')
  case Nil
  then show ?case by simp
next
  case (Cons raw raws)
  show ?case
  proof (cases "resolve ty raw")
    case None
    then show ?thesis using Cons.IH by simp
  next
    case (Some term_id)
    then show ?thesis using Cons.IH [of m m'] by (simp add: split_beta)
  qed
qed

lemma merge_entity_url: "website_url (merge_entity e n cats tgs) = website_url e"
  by (simp add: merge_entity_def)

lemma fill_twice: "fill (fill a b) b = fill a b"
  by (cases a; cases b) (simp_all add: fill_def)

lemma fill_self: "fill a a = a"
  by (cases a) (simp_all add: fill_def)

lemma merge_entity_twice:
  "merge_entity (merge_entity e n cats tgs) n cats tgs = merge_entity e n cats tgs"
  by (simp add: merge_entity_def fill_twice)

lemma merge_new_entity:
  "merge_entity (new_entity i n cats tgs) n cats tgs = new_entity i n cats tgs"
  by (simp add: merge_entity_def new_entity_def fill_self)

lemma merge_stored_twice:
  "merge_stored n cats tgs (merge_stored n cats tgs store) = merge_stored n cats tgs store"
  by (induction store) (simp_all add: merge_entity_url merge_entity_twice)

lemma find_merge_stored:
  "find_by_url (website_url n) store = Some e \<Longrightarrow>
   find_by_url (website_url n) (merge_stored n cats tgs store) = Some (merge_entity e n cats tgs)"
  by (induction store) (auto simp add: find_by_url_def merge_entity_url)

lemma find_by_url_append:
  "find_by_url u xs = None \<Longrightarrow> find_by_url u (xs @ ys) = find_by_url u ys"
  by (induction xs) (auto simp add: find_by_url_def split: if_splits)

lemma find_inserted:
  "find_by_url (website_url n) store = None \<Longrightarrow>
   find_by_url (website_url n) (insert_entity n cats tgs store) = Some (new_entity (length store) n cats tgs)"
  by (simp add: insert_entity_def find_by_url_append) (simp add: find_by_url_def new_entity_def)

lemma merge_stored_append:
  "find_by_url (website_url n) xs = None \<Longrightarrow>
   merge_stored n cats tgs (xs @ ys) = xs @ merge_stored n cats tgs ys"
  by (induction xs) (auto simp add: find_by_url_def split: if_splits)

lemma merge_inserted:
  "find_by_url (website_url n) store = None \<Longrightarrow>
   merge_stored n cats tgs (insert_entity n cats tgs store) = insert_entity n cats tgs store"
  using merge_new_entity [of "length store" n cats tgs]
  by (simp add: insert_entity_def merge_stored_append new_entity_def)

lemma ingest_again:
  assumes "normalizer r = Inr n"
    and "ingest normalizer resolve r sl = (out, sl1)"
  shows "\<exists>missing. ingest normalizer resolve r sl1 = (Merged, fst sl1, missing)"
proof -
  obtain cats m1 where c: "resolve_all resolve Category (categories n) (snd sl) = (cats, m1)"
    by (cases "resolve_all resolve Category (categories n) (snd sl)") auto
  obtain tgs m2 where t: "resolve_all resolve Tag (tags n) m1 = (tgs, m2)"
    by (cases "resolve_all resolve Tag (tags n) m1") auto
  obtain cats' m1' where c': "resolve_all resolve Category (categories n) (snd sl1) = (cats', m1')"
    by (cases "resolve_all resolve Category (categories n) (snd sl1)") auto
  obtain tgs' m2' where t': "resolve_all resolve Tag (tags n) m1' = (tgs', m2')"
    by (cases "resolve_all resolve Tag (tags n) m1'") auto
  have cats: "cats' = cats"
    using resolve_all_ids [of resolve Category "categories n" "snd sl1" "snd sl"] c c' by simp
  have tgs: "tgs' = tgs"
    using resolve_all_ids [of resolve Tag "tags n" m1' m1] t t' by simp
  show ?thesis
  proof (cases "find_by_url (website_url n) (fst sl)")
    case None
    with assms c t have s1: "fst sl1 = insert_entity n cats tgs (fst sl)"
      by (auto simp add: ingest_def)
    from None have f: "find_by_url (website_url n) (fst sl1) = Some (new_entity (length (fst sl)) n cats tgs)"
      by (simp add: s1 find_inserted)
    from None have "merge_stored n cats tgs (fst sl1) = fst sl1"
      by (simp add: s1 merge_inserted)
    with assms(1) c' t' cats tgs f show ?thesis
      by (simp add: ingest_def)
  next
    case (Some e)
    with assms c t have s1: "fst sl1 = merge_stored n cats tgs (fst sl)"
      by (auto simp add: ingest_def)
    from Some have f: "find_by_url (website_url n) (fst sl1) = Some (merge_entity e n cats tgs)"
      by (simp add: s1 find_merge_stored)
    have "merge_stored n cats tgs (fst sl1) = fst sl1"
      by (simp add: s1 merge_stored_twice)
    with assms(1) c' t' cats tgs f show ?thesis
      by (simp add: ingest_def)
  qed
qed

lemma run_one_record:
  "ingest normalizer resolve r sl = (out, sl') \<Longrightarrow>
     store_after (run_records normalizer resolve j sl [Record r]) = fst sl'
   \<and> log_after (run_records normalizer resolve j sl [Record r]) = snd sl'
   \<and> job_stats (job_after (run_records normalizer resolve j sl [Record r])) =
       increment TotalProcessed (increment (outcome_counter out) (job_stats j))"
  by (simp add: Let_def update_stats_def del: increment.simps)

subsection \<open>The cap on a run\<close>






subsection \<open>Canonical URLs\<close>

lemma lower_char_twice: "lower_char (lower_char c) = lower_char c"
  by (simp add: lower_char_def Let_def)

lemma lower_twice: "lower (lower t) = lower t"
  by (simp add: lower_def lower_char_twice)

lemma strip_trailing_slash_twice: "strip_trailing_slash (strip_trailing_slash p) = strip_trailing_slash p"
  by (simp add: strip_trailing_slash_def dropWhile_idem)

subsection \<open>The scenario run\<close>

lemma resolve_tool_a:
  "resolve_all taxonomy Category (categories tool_a) m = ({''cat_writing''}, m)"
  "resolve_all taxonomy Tag (tags tool_a) m = ({}, m)"
  by code_simp+

lemma ingest_tool_a:
  "ingest (Inr :: normalized_record \<Rightarrow> unit + normalized_record) taxonomy tool_a ([], []) =
     (Inserted, [new_entity 0 tool_a {''cat_writing''} {}], [])"
  by (simp add: ingest_def resolve_tool_a find_by_url_def insert_entity_def)

lemma run_tool_a:
  "run_records (Inr :: normalized_record \<Rightarrow> unit + normalized_record) taxonomy
     (job_of_two\<lparr>state := Running\<rparr>) ([], []) [Record tool_a] =
   \<lparr>job_after = job_of_two\<lparr>state := Completed, job_stats :=
        \<lparr>total_processed = 1, successful_submissions = 1, failed_submissions = 0, duplicates_skipped = 0\<rparr>\<rparr>,
     store_after = [new_entity 0 tool_a {''cat_writing''} {}],
     log_after = [],
     unpulled = [],
     history =
        [(MidRecord, job_of_two\<lparr>state := Running, job_stats :=
            \<lparr>total_processed = 0, successful_submissions = 1, failed_submissions = 0, duplicates_skipped = 0\<rparr>\<rparr>),
         (RecordBoundary, job_of_two\<lparr>state := Running, job_stats :=
            \<lparr>total_processed = 1, successful_submissions = 1, failed_submissions = 0, duplicates_skipped = 0\<rparr>\<rparr>),
         (Terminal, job_of_two\<lparr>state := Completed, job_stats :=
            \<lparr>total_processed = 1, successful_submissions = 1, failed_submissions = 0, duplicates_skipped = 0\<rparr>\<rparr>)]\<rparr>"
  by (simp add: ingest_tool_a Let_def update_stats_def job_of_two_def no_stats_def)

lemma job_of_two_fields:
  "state job_of_two = Pending" "job_stats job_of_two = no_stats" "max_items job_of_two = 2"
  by (simp_all add: job_of_two_def)

lemma run_job_of_two:
  "run_job normalizer resolve job_of_two sl stream =
     Some (run_records normalizer resolve (job_of_two\<lparr>state := Running\<rparr>) sl stream)"
  by (simp add: run_job_def transition_def job_of_two_def)

subsection \<open>The claims about the pipeline\<close>

text \<open>
  C1, as amended. The claim says that \<open>total_processed\<close> is the sum of the three outcome
  counters at every point during and after a run. Between the increment of a record's
  outcome counter and the increment of \<open>total_processed\<close> (step 4) the sum is one ahead,
  which a poll can see (section 5: "a poll may observe a partially-updated stats
  snapshot mid-record"). What holds: for a Job whose counters balance at the start, as
  those of a new Job do, the run is accepted, and the counters balance after every
  record's last increment and after the run; between a record's two increments the sum
  is exactly one more than \<open>total_processed\<close>.
\<close>

theorem stats_counted_at_record_boundaries:
  assumes "state j = Pending" and "counted (job_stats j)"
  shows "\<exists>run. run_job normalizer resolve j sl stream = Some run
     \<and> counted (job_stats (job_after run))
     \<and> (\<forall>(p, j') \<in> set (history run).
          if p = MidRecord
          then Suc (total_processed (job_stats j')) =
                 successful_submissions (job_stats j') + failed_submissions (job_stats j')
                 + duplicates_skipped (job_stats j')
          else counted (job_stats j'))"
proof -
  let ?started = "j\<lparr>state := Running\<rparr>"
  let ?run = "run_records normalizer resolve ?started sl stream"
  have r: "run_job normalizer resolve j sl stream = Some ?run"
    using assms(1) by (simp add: run_job_def transition_def)
  have c: "counted (job_stats ?started)"
    using assms(2) by simp
  have a: "counted (job_stats (job_after ?run))"
    using c by (rule job_after_counted)
  have h: "\<forall>(p, j') \<in> set (history ?run).
          if p = MidRecord
          then Suc (total_processed (job_stats j')) =
                 successful_submissions (job_stats j') + failed_submissions (job_stats j')
                 + duplicates_skipped (job_stats j')
          else counted (job_stats j')"
    using history_points [OF c] by blast
  from r a h show ?thesis by blast
qed

text \<open>The Job of the scenarios on a stream of one record, \<open>Tool A\<close>, into an empty store.\<close>

theorem stats_counted_at_record_boundaries_witness:
  "state job_of_two = Pending \<and> counted (job_stats job_of_two)
   \<and> map_option (\<lambda>run. job_stats (job_after run))
        (run_job (Inr :: normalized_record \<Rightarrow> unit + normalized_record) taxonomy job_of_two ([], [])
           [Record tool_a])
      = Some \<lparr>total_processed = 1, successful_submissions = 1, failed_submissions = 0, duplicates_skipped = 0\<rparr>
   \<and> counted \<lparr>total_processed = 1, successful_submissions = 1, failed_submissions = 0, duplicates_skipped = 0\<rparr>"
proof -
  have p: "state job_of_two = Pending" and c: "counted (job_stats job_of_two)"
    by (simp_all add: job_of_two_def no_stats_def counted_def)
  show ?thesis
    using p c
      stats_counted_at_record_boundaries [OF p c,
        of "Inr :: normalized_record \<Rightarrow> unit + normalized_record" taxonomy "([], [])" "[Record tool_a]"]
    by (simp add: run_job_of_two run_tool_a counted_def del: run_records.simps)
qed

text \<open>
  The claim as stated fails on that run: the Job's first value during the run has one
  successful submission and no record counted as processed.
\<close>

theorem stats_not_counted_mid_record:
  "map_option history
     (run_job (Inr :: normalized_record \<Rightarrow> unit + normalized_record) taxonomy job_of_two ([], [])
        [Record tool_a])
     = Some
        [(MidRecord, job_of_two\<lparr>state := Running, job_stats :=
            \<lparr>total_processed = 0, successful_submissions = 1, failed_submissions = 0, duplicates_skipped = 0\<rparr>\<rparr>),
         (RecordBoundary, job_of_two\<lparr>state := Running, job_stats :=
            \<lparr>total_processed = 1, successful_submissions = 1, failed_submissions = 0, duplicates_skipped = 0\<rparr>\<rparr>),
         (Terminal, job_of_two\<lparr>state := Completed, job_stats :=
            \<lparr>total_processed = 1, successful_submissions = 1, failed_submissions = 0, duplicates_skipped = 0\<rparr>\<rparr>)]
   \<and> \<not> counted \<lparr>total_processed = 0, successful_submissions = 1, failed_submissions = 0, duplicates_skipped = 0\<rparr>"
  by (simp add: run_job_of_two run_tool_a counted_def del: run_records.simps)

text \<open>
  C4. A record that normalizes, run through the Coordinator once and then a second time
  (by the same Job or another), leaves the store on the second run exactly as the first
  run left it, so no Entity is added and the store's size is unchanged; the second run
  counts it as a duplicate: \<open>duplicates_skipped\<close> and \<open>total_processed\<close> go up by one and
  the two other counters stay.
\<close>

theorem same_record_again_is_a_duplicate:
  assumes "normalizer r = Inr n"
    and "run_records normalizer resolve j sl [Record r] = first"
    and "run_records normalizer resolve j' (store_after first, log_after first) [Record r] = second"
  shows "store_after second = store_after first
     \<and> length (store_after second) = length (store_after first)
     \<and> duplicates_skipped (job_stats (job_after second)) = Suc (duplicates_skipped (job_stats j'))
     \<and> successful_submissions (job_stats (job_after second)) = successful_submissions (job_stats j')
     \<and> failed_submissions (job_stats (job_after second)) = failed_submissions (job_stats j')
     \<and> total_processed (job_stats (job_after second)) = Suc (total_processed (job_stats j'))"
proof -
  obtain out sl1 where i: "ingest normalizer resolve r sl = (out, sl1)"
    by (cases "ingest normalizer resolve r sl") auto
  have f: "store_after first = fst sl1" "log_after first = snd sl1"
    using run_one_record [OF i, of j] assms(2) by auto
  obtain missing where a: "ingest normalizer resolve r sl1 = (Merged, fst sl1, missing)"
    using ingest_again [OF assms(1) i] by blast
  have s: "store_after second = fst sl1"
    and t: "job_stats (job_after second) = increment TotalProcessed (increment DuplicatesSkipped (job_stats j'))"
    using run_one_record [OF a, of j'] assms(3) f by auto
  show ?thesis
    by (simp add: s t f)
qed

text \<open>
  \<open>Tool A\<close> into an empty store, and then again into the store that the first run left,
  by a second Job.
\<close>

theorem same_record_again_is_a_duplicate_witness:
  "(Inr :: normalized_record \<Rightarrow> unit + normalized_record) tool_a = Inr tool_a
   \<and> store_after (run_records (Inr :: normalized_record \<Rightarrow> unit + normalized_record) taxonomy
        (job_of_two\<lparr>state := Running\<rparr>) ([], []) [Record tool_a])
       = [new_entity 0 tool_a {''cat_writing''} {}]
   \<and> store_after (run_records (Inr :: normalized_record \<Rightarrow> unit + normalized_record) taxonomy
        (job_of_two\<lparr>jid := ''job_2'', state := Running\<rparr>)
        ([new_entity 0 tool_a {''cat_writing''} {}], []) [Record tool_a])
       = [new_entity 0 tool_a {''cat_writing''} {}]
   \<and> duplicates_skipped (job_stats (job_after
        (run_records (Inr :: normalized_record \<Rightarrow> unit + normalized_record) taxonomy
           (job_of_two\<lparr>jid := ''job_2'', state := Running\<rparr>)
           ([new_entity 0 tool_a {''cat_writing''} {}], []) [Record tool_a]))) = 1"
  using same_record_again_is_a_duplicate
      [of "Inr :: normalized_record \<Rightarrow> unit + normalized_record" tool_a tool_a taxonomy
          "job_of_two\<lparr>state := Running\<rparr>" "([], [])" _
          "job_of_two\<lparr>jid := ''job_2'', state := Running\<rparr>" _,
       OF refl run_tool_a refl]
  by (simp add: run_tool_a job_of_two_fields no_stats_def del: run_records.simps)




text \<open>
  C6. A URL that canonicalizes is canonicalized to a fixed point: canonicalizing the
  result again gives the result.
\<close>

theorem canonicalize_fixed_point:
  assumes "canonicalize u = Inr v"
  shows "canonicalize v = Inr v"
proof -
  define sch where "sch = lower (scheme u)"
  from assms have ok: "(sch = ''http'' \<or> sch = ''https'') \<and> lower (host u) \<noteq> []"
    by (simp add: canonicalize_def Let_def sch_def split: if_splits)
  from assms have v: "v = \<lparr>scheme = sch, host = lower (host u),
      port = (if port u = default_port sch then None else port u),
      path = strip_trailing_slash (path u),
      query = filter (\<lambda>(k, v). \<not> is_tracking k) (query u)\<rparr>"
    by (simp add: canonicalize_def Let_def sch_def split: if_splits)
  have s: "lower (scheme v) = sch"
    by (simp add: v sch_def lower_twice)
  have h: "lower (host v) = host v"
    by (simp add: v lower_twice)
  have d: "default_port sch \<noteq> None"
    using ok by (auto simp add: default_port_def)
  have p: "(if port v = default_port sch then None else port v) = port v"
    using d by (simp add: v)
  have pa: "strip_trailing_slash (path v) = path v"
    by (simp add: v strip_trailing_slash_twice)
  have q: "filter (\<lambda>(k, v). \<not> is_tracking k) (query v) = query v"
    by (simp add: v)
  have hv: "host v \<noteq> []"
    using ok by (simp add: v)
  have "canonicalize v = Inr \<lparr>scheme = scheme v, host = host v, port = port v, path = path v, query = query v\<rparr>"
    unfolding canonicalize_def Let_def s h p pa q using ok hv s by (simp add: v)
  then show ?thesis by simp
qed

text \<open>\<^verbatim>\<open>HTTPS://Example.COM:443/tools//?utm_source=x&page=2\<close> and its canonical form.\<close>

theorem canonicalize_fixed_point_witness:
  "canonicalize \<lparr>scheme = ''HTTPS'', host = ''Example.COM'', port = Some 443, path = ''/tools//'',
       query = [(''utm_source'', ''x''), (''page'', ''2'')]\<rparr>
     = Inr \<lparr>scheme = ''https'', host = ''example.com'', port = None, path = ''/tools'',
            query = [(''page'', ''2'')]\<rparr>
   \<and> canonicalize \<lparr>scheme = ''https'', host = ''example.com'', port = None, path = ''/tools'',
            query = [(''page'', ''2'')]\<rparr>
     = Inr \<lparr>scheme = ''https'', host = ''example.com'', port = None, path = ''/tools'',
            query = [(''page'', ''2'')]\<rparr>"
proof -
  have c: "canonicalize \<lparr>scheme = ''HTTPS'', host = ''Example.COM'', port = Some 443, path = ''/tools//'',
       query = [(''utm_source'', ''x''), (''page'', ''2'')]\<rparr>
     = Inr \<lparr>scheme = ''https'', host = ''example.com'', port = None, path = ''/tools'',
            query = [(''page'', ''2'')]\<rparr>"
    by code_simp
  show ?thesis
    using c canonicalize_fixed_point [OF c] by simp
qed

end
